theory Spec2Isabelle
  imports Complex_Main "HOL-Library.Sublist"
begin

section \<open>Text Summarizer API: a shallow embedding of \<open>src/main.py\<close>\<close>

text \<open>
  The service has two POST handlers, \<open>summarize_text\<close> and \<open>summarize_text_stream\<close>.
  Both validate the request, build a prompt, call the Writer client and shape the answer.
  The model keeps the source's names and the order of its checks.

  Python strings are modelled as \<open>string\<close>, one \<open>char\<close> per code point, so the model
  covers text whose code points are below 256; \<open>len\<close> is \<open>length\<close>.
\<close>

subsection \<open>String operations of the Python runtime used by the source\<close>

text \<open>
  \<open>str.strip()\<close> and \<open>str.split()\<close> without arguments work on the characters for which
  \<open>str.isspace\<close> holds. Below 256 these are the code points 9 to 13, 28 to 32, 133 and 160.
\<close>

definition isspace :: "char \<Rightarrow> bool" where
  "isspace c = (of_char c \<in> {9, 10, 11, 12, 13, 28, 29, 30, 31, 32, 133, 160 :: nat})"

definition strip :: "string \<Rightarrow> string" where
  "strip s = rev (dropWhile isspace (rev (dropWhile isspace s)))"

text \<open>
  \<open>str.split()\<close>: the maximal runs of non-space characters, in order; \<open>split_acc\<close> carries
  the word being read.
\<close>

fun split_acc :: "string \<Rightarrow> string \<Rightarrow> string list" where
  "split_acc w [] = (if w = [] then [] else [w])"
| "split_acc w (c # cs) =
     (if isspace c then (if w = [] then split_acc [] cs else w # split_acc [] cs)
      else split_acc (w @ [c]) cs)"

definition split :: "string \<Rightarrow> string list" where
  "split s = split_acc [] s"

text \<open>
  \<open>str.lower()\<close> on code points below 256: the letters A to Z and the code points 192 to
  222 other than 215 move up by 32, every other character is unchanged.
\<close>

definition lower_char :: "char \<Rightarrow> char" where
  "lower_char c =
     (let n = (of_char c :: nat)
      in if (65 \<le> n \<and> n \<le> 90) \<or> (192 \<le> n \<and> n \<le> 222 \<and> n \<noteq> 215)
         then char_of (n + 32) else c)"

definition lower :: "string \<Rightarrow> string" where
  "lower s = map lower_char s"

text \<open>The operator \<open>needle in haystack\<close> on strings: a contiguous occurrence.\<close>

fun str_in :: "string \<Rightarrow> string \<Rightarrow> bool" where
  "str_in needle [] = (needle = [])"
| "str_in needle (c # cs) = (prefix needle (c # cs) \<or> str_in needle cs)"

subsection \<open>Helper function to count words (line 49)\<close>

definition count_words :: "string \<Rightarrow> nat" where
  "count_words s = length (split (strip s))"

subsection \<open>Request, response and exceptions\<close>

record TextSummarizeRequest =
  text' :: string
  max_length :: "int option"
  style :: "string option"

text \<open>
  An exception raised inside a handler's \<open>try\<close> block. \<open>HTTPException\<close> is the framework's
  class, a subclass of \<open>Exception\<close>; \<open>PyException\<close> stands for every other exception and
  carries its \<open>str(e)\<close>.
\<close>

datatype exn = HTTPException nat string | PyException string

text \<open>
  \<open>str(e)\<close>. The text of an \<open>HTTPException\<close> is fixed by the framework, which is not part
  of the repository: it is the parameter \<open>hstr\<close>, applied to the status code and the detail.
\<close>

fun str_exn :: "(nat \<Rightarrow> string \<Rightarrow> string) \<Rightarrow> exn \<Rightarrow> string" where
  "str_exn hstr (HTTPException code detail) = hstr code detail"
| "str_exn hstr (PyException s) = s"

text \<open>What the client receives when a handler raises \<open>HTTPException\<close>: status and detail.\<close>

datatype http_error = HTTPError (status_code: nat) (detail: string)

subsection \<open>Prompt building (lines 79 to 96 and, identically, 164 to 181)\<close>

definition build_prompt :: "string \<Rightarrow> string option \<Rightarrow> string" where
  "build_prompt txt sty =
     (if sty = Some ''bullet_points'' then
        ''Please summarize the following text in bullet points format. Focus on the key points and main ideas:''
        @ ''\<newline>\<newline>'' @ txt @ ''\<newline>\<newline>'' @ ''Summary (bullet points):''
      else if sty = Some ''detailed'' then
        ''Please provide a detailed summary of the following text, maintaining important details and context:''
        @ ''\<newline>\<newline>'' @ txt @ ''\<newline>\<newline>'' @ ''Detailed summary:''
      else
        ''Please provide a concise summary of the following text, capturing the main points in a clear and brief manner:''
        @ ''\<newline>\<newline>'' @ txt @ ''\<newline>\<newline>'' @ ''Concise summary:'')"

subsection \<open>The \<open>except Exception as e\<close> clause (lines 127 to 143 and 243 to 259)\<close>

definition except_clause :: "string \<Rightarrow> http_error" where
  "except_clause s =
     (if str_in ''api_key'' (lower s) then
        HTTPError 401 ''Writer API key not configured. Please set WRITER_API_KEY environment variable.''
      else if str_in ''rate limit'' (lower s) then
        HTTPError 429 ''Rate limit exceeded. Please try again later.''
      else
        HTTPError 500 (''Error generating summary: '' @ s))"


subsection \<open>Floating point\<close>

text \<open>
  Python's \<open>float\<close> is the IEEE 754 binary64 format. A finite float is modelled as the
  rational it denotes, and each operation as the exact operation followed by \<open>fl\<close>, rounding
  to the nearest number with a 53-bit significand, ties to the even significand. The exponent
  is not bounded: word counts are below \<open>2 ^ 63\<close>, so the quotients, differences and products
  computed here neither overflow nor reach the subnormal range.
\<close>

definition round_half_even :: "rat \<Rightarrow> int" where
  "round_half_even x =
     (let f = \<lfloor>x\<rfloor>; d = x - of_int f
      in if d < 1 / 2 then f else if 1 / 2 < d then f + 1 else if even f then f else f + 1)"

function bit_length :: "int \<Rightarrow> nat" where
  "bit_length n = (if n \<le> 0 then 0 else Suc (bit_length (n div 2)))"
  by pat_completeness auto
termination
  by (relation "measure nat") auto

declare bit_length.simps [simp del]

definition pow2 :: "int \<Rightarrow> rat" where
  "pow2 e = (if 0 \<le> e then 2 ^ nat e else 1 / 2 ^ nat (- e))"

text \<open>For \<open>x \<noteq> 0\<close>, \<open>exponent x\<close> is the \<open>e\<close> with \<open>2 ^ e \<le> \<bar>x\<bar> < 2 ^ (e + 1)\<close>.\<close>

definition exponent :: "rat \<Rightarrow> int" where
  "exponent x =
     (if 1 \<le> \<bar>x\<bar> then int (bit_length \<lfloor>\<bar>x\<bar>\<rfloor>) - 1
      else - int (bit_length (\<lceil>1 / \<bar>x\<bar>\<rceil> - 1)))"

definition fl :: "rat \<Rightarrow> rat" where
  "fl x = (if x = 0 then 0
           else let u = pow2 (exponent x - 52) in of_int (round_half_even (x / u)) * u)"

text \<open>
  \<open>round(x, ndigits)\<close> on a float: the decimal with \<open>ndigits\<close> places nearest to the exact
  value of \<open>x\<close>, ties to the even last digit, converted back to a float.
\<close>

definition float_round :: "rat \<Rightarrow> nat \<Rightarrow> rat" where
  "float_round x ndigits = fl (of_int (round_half_even (x * 10 ^ ndigits)) / 10 ^ ndigits)"

subsection \<open>The response and its statistics\<close>

record TextSummarizeResponse =
  summary :: string
  original_word_count :: nat
  summary_word_count :: nat
  compression_ratio :: rat

text \<open>
  Lines 118 and 213:
  \<^verbatim>\<open>round((1 - summary_word_count / original_word_count) * 100, 1) if original_word_count > 0 else 0\<close>
\<close>

definition compression_ratio_of :: "nat \<Rightarrow> nat \<Rightarrow> rat" where
  "compression_ratio_of summary_wc original_wc =
     (if 0 < original_wc
      then float_round (fl (fl (1 - fl (of_nat summary_wc / of_nat original_wc)) * 100)) 1
      else 0)"

subsection \<open>The Writer client\<close>

text \<open>
  The keyword arguments of \<open>writer_client.chat.chat\<close>. A message is its role and its
  content; \<open>stream\<close> is \<open>False\<close> where the source does not pass it; \<open>temperature\<close> is a float.
\<close>

record chat_args =
  model :: string
  messages :: "(string \<times> string) list"
  max_tokens :: int
  temperature :: rat
  stream :: bool

text \<open>
  The client is outside the repository and is a parameter of the handlers. Without
  \<open>stream\<close> a call raises or returns a completion, given here by the \<open>message.content\<close> of
  each of its \<open>choices\<close>. With \<open>stream=True\<close> it raises or returns an iterator; each step of
  the iteration raises or gives a chunk, which is the list of the \<open>delta\<close> of its \<open>choices\<close>.
  A delta may lack the attribute \<open>content\<close>, or hold \<open>None\<close> or a string.
\<close>

datatype delta = NoContentAttr | Delta "string option"

type_synonym chunk = "delta list"

datatype stream_item = Next chunk | Raises exn

record writer_client =
  chat :: "chat_args \<Rightarrow> exn + string option list"
  chat_stream :: "chat_args \<Rightarrow> exn + stream_item list"

text \<open>Lines 107 and 197: \<^verbatim>\<open>request.max_length if request.max_length else 500\<close>.\<close>

definition max_tokens_of :: "int option \<Rightarrow> int" where
  "max_tokens_of ml = (case ml of None \<Rightarrow> 500 | Some n \<Rightarrow> if n \<noteq> 0 then n else 500)"

subsection \<open>The synchronous handler (lines 63 to 143)\<close>

text \<open>\<open>str(e)\<close> of the two exceptions that line 112 can raise on an unusual completion.\<close>

definition index_error :: exn where
  "index_error = PyException ''list index out of range''"

definition attribute_error :: exn where
  "attribute_error =
     PyException ([CHR 0x27] @ ''NoneType'' @ [CHR 0x27] @ '' object has no attribute ''
                  @ [CHR 0x27] @ ''strip'' @ [CHR 0x27])"

text \<open>
  The body of the \<open>try\<close> block. It raises (\<open>Inl\<close>) or returns the response, and the second
  component lists the upstream calls made, in order.
\<close>

definition summarize_text_try ::
  "writer_client \<Rightarrow> TextSummarizeRequest \<Rightarrow> (exn + TextSummarizeResponse) \<times> chat_args list" where
  "summarize_text_try client request =
     (if strip (text' request) = [] then
        (Inl (HTTPException 400 ''Text cannot be empty''), [])
      else if length (strip (text' request)) < 50 then
        (Inl (HTTPException 400 ''Text must be at least 50 characters long''), [])
      else
        let original_wc = count_words (text' request);
            prompt = build_prompt (text' request) (style request);
            args = \<lparr>model = ''palmyra-x-004'', messages = [(''user'', prompt)],
                    max_tokens = max_tokens_of (max_length request),
                    temperature = fl (3 / 10), stream = False\<rparr>
        in case chat client args of
             Inl e \<Rightarrow> (Inl e, [args])
           | Inr choices \<Rightarrow>
               (case choices of
                  [] \<Rightarrow> (Inl index_error, [args])
                | c # _ \<Rightarrow>
                    (case c of
                       None \<Rightarrow> (Inl attribute_error, [args])
                     | Some content \<Rightarrow>
                         let summ = strip content;
                             summary_wc = count_words summ;
                             ratio = compression_ratio_of summary_wc original_wc
                         in (Inr \<lparr>summary = summ, original_word_count = original_wc,
                                   summary_word_count = summary_wc,
                                   compression_ratio = ratio\<rparr>, [args]))))"

text \<open>
  The handler: every exception of the \<open>try\<close> block, the \<open>HTTPException\<close> of the validation
  included, reaches the \<open>except Exception\<close> clause, which raises the \<open>HTTPException\<close> the
  client receives.
\<close>

definition summarize_text ::
  "(nat \<Rightarrow> string \<Rightarrow> string) \<Rightarrow> writer_client \<Rightarrow> TextSummarizeRequest
     \<Rightarrow> (http_error + TextSummarizeResponse) \<times> chat_args list" where
  "summarize_text hstr client request =
     (case summarize_text_try client request of
        (Inl e, calls) \<Rightarrow> (Inl (except_clause (str_exn hstr e)), calls)
      | (Inr response, calls) \<Rightarrow> (Inr response, calls))"

subsection \<open>The streaming handler (lines 147 to 259)\<close>

text \<open>
  The events of the stream. Each is sent as one frame \<^verbatim>\<open>data: <json>\<close> followed by a blank
  line; the model keeps the event and leaves the JSON encoding out.
\<close>

datatype stream_event =
    Chunk string
  | Complete string nat nat rat
  | Error string

text \<open>
  The \<open>for chunk in stream\<close> loop (lines 203 to 209), with the accumulator \<open>summary_text\<close>:
  the events sent, and the exception that ended the loop or the accumulated text.
\<close>

fun relay :: "stream_item list \<Rightarrow> string \<Rightarrow> stream_event list \<times> (exn + string)" where
  "relay [] summary_text = ([], Inr summary_text)"
| "relay (Raises e # rest) summary_text = ([], Inl e)"
| "relay (Next [] # rest) summary_text = ([], Inl index_error)"
| "relay (Next (NoContentAttr # _) # rest) summary_text = relay rest summary_text"
| "relay (Next (Delta None # _) # rest) summary_text = relay rest summary_text"
| "relay (Next (Delta (Some content) # _) # rest) summary_text =
     (if content \<noteq> [] then
        (case relay rest (summary_text @ content) of
           (events, r) \<Rightarrow> (Chunk content # events, r))
      else relay rest summary_text)"

text \<open>
  The generator \<open>generate_stream\<close> (lines 183 to 231), run to its end: the events it yields
  and the upstream calls it makes. The call that opens the stream is inside the generator's
  own \<open>try\<close> block.
\<close>

definition generate_stream ::
  "(nat \<Rightarrow> string \<Rightarrow> string) \<Rightarrow> writer_client \<Rightarrow> TextSummarizeRequest \<Rightarrow> string \<Rightarrow> nat
     \<Rightarrow> stream_event list \<times> chat_args list" where
  "generate_stream hstr client request prompt original_wc =
     (let args = \<lparr>model = ''palmyra-x-004'', messages = [(''user'', prompt)],
                  max_tokens = max_tokens_of (max_length request),
                  temperature = fl (3 / 10), stream = True\<rparr>
      in case chat_stream client args of
           Inl e \<Rightarrow> ([Error (str_exn hstr e)], [args])
         | Inr upstream \<Rightarrow>
             (case relay upstream [] of
                (events, Inl e) \<Rightarrow> (events @ [Error (str_exn hstr e)], [args])
              | (events, Inr summary_text) \<Rightarrow>
                  let summary_wc = count_words summary_text;
                      ratio = compression_ratio_of summary_wc original_wc
                  in (events @ [Complete summary_text original_wc summary_wc ratio], [args])))"

text \<open>
  The handler returns a \<open>StreamingResponse\<close> around the generator; \<open>body\<close> is what the
  generator yields when the server iterates it.
\<close>

record StreamingResponse =
  body :: "stream_event list"
  media_type :: string
  headers :: "(string \<times> string) list"

definition summarize_text_stream_try ::
  "(nat \<Rightarrow> string \<Rightarrow> string) \<Rightarrow> writer_client \<Rightarrow> TextSummarizeRequest
     \<Rightarrow> (exn + StreamingResponse) \<times> chat_args list" where
  "summarize_text_stream_try hstr client request =
     (if strip (text' request) = [] then
        (Inl (HTTPException 400 ''Text cannot be empty''), [])
      else if length (strip (text' request)) < 50 then
        (Inl (HTTPException 400 ''Text must be at least 50 characters long''), [])
      else
        let original_wc = count_words (text' request);
            prompt = build_prompt (text' request) (style request)
        in case generate_stream hstr client request prompt original_wc of
             (events, calls) \<Rightarrow>
               (Inr \<lparr>body = events, media_type = ''text/event-stream'',
                      headers = [(''Cache-Control'', ''no-cache''),
                                 (''Connection'', ''keep-alive''),
                                 (''X-Accel-Buffering'', ''no'')]\<rparr>, calls))"

definition summarize_text_stream ::
  "(nat \<Rightarrow> string \<Rightarrow> string) \<Rightarrow> writer_client \<Rightarrow> TextSummarizeRequest
     \<Rightarrow> (http_error + StreamingResponse) \<times> chat_args list" where
  "summarize_text_stream hstr client request =
     (case summarize_text_stream_try hstr client request of
        (Inl e, calls) \<Rightarrow> (Inl (except_clause (str_exn hstr e)), calls)
      | (Inr response, calls) \<Rightarrow> (Inr response, calls))"

text \<open>The status line of a handler's answer: 200 unless it raised.\<close>

definition status_of :: "http_error + 'a \<Rightarrow> nat" where
  "status_of r = (case r of Inl e \<Rightarrow> status_code e | Inr _ \<Rightarrow> 200)"

subsection \<open>Notions used to state the properties\<close>

text \<open>
  A case-insensitive substring match, stated without reference to the code: some contiguous
  part of \<open>s\<close> equals the indicator up to the case of its letters.
\<close>

definition contains_ignoring_case :: "string \<Rightarrow> string \<Rightarrow> bool" where
  "contains_ignoring_case indicator s =
     (\<exists>pre mid post. s = pre @ mid @ post \<and> lower mid = lower indicator)"

fun is_chunk :: "stream_event \<Rightarrow> bool" where
  "is_chunk (Chunk _) = True"
| "is_chunk _ = False"

fun is_terminal :: "stream_event \<Rightarrow> bool" where
  "is_terminal (Chunk _) = False"
| "is_terminal _ = True"

text \<open>The \<open>content\<close> of the chunk events of a stream, in emission order.\<close>

fun chunk_contents :: "stream_event list \<Rightarrow> string list" where
  "chunk_contents [] = []"
| "chunk_contents (Chunk content # events) = content # chunk_contents events"
| "chunk_contents (_ # events) = chunk_contents events"

text \<open>
  A delta without text: it has no \<open>content\<close> attribute, or its content is \<open>None\<close> or the
  empty string.
\<close>

fun delta_without_text :: "delta \<Rightarrow> bool" where
  "delta_without_text NoContentAttr = True"
| "delta_without_text (Delta None) = True"
| "delta_without_text (Delta (Some content)) = (content = [])"

text \<open>
  An upstream chunk that carries no text content: none of its choices has a delta with text.
  A chunk with no choices at all is one.
\<close>

definition carries_no_text :: "chunk \<Rightarrow> bool" where
  "carries_no_text c = list_all delta_without_text c"

text \<open>
  An upstream chunk whose first choice carries no text content: the chunk has a choice, and
  the delta of the first one is without text.
\<close>

fun first_choice_without_text :: "chunk \<Rightarrow> bool" where
  "first_choice_without_text [] = False"
| "first_choice_without_text (d # _) = delta_without_text d"

text \<open>
  An upstream stream that is relayed to its end without an error: no step of the iteration
  raises, and every chunk has a first choice, so that \<open>chunk.choices[0]\<close> of line 204 raises
  nothing either.
\<close>

fun relayed_without_error :: "stream_item \<Rightarrow> bool" where
  "relayed_without_error (Next c) = (c \<noteq> [])"
| "relayed_without_error (Raises e) = False"

definition completes_without_error :: "stream_item list \<Rightarrow> bool" where
  "completes_without_error upstream = list_all relayed_without_error upstream"

subsection \<open>Example inputs\<close>

text \<open>
  One instance of the parameter \<open>hstr\<close>: the framework's current releases print an
  \<open>HTTPException\<close> as its status code, a colon, a space and its detail.
\<close>

function decimal :: "nat \<Rightarrow> string" where
  "decimal n = (if n < 10 then [char_of (48 + n)]
                else decimal (n div 10) @ [char_of (48 + n mod 10)])"
  by pat_completeness auto
termination
  by (relation "measure id") auto

declare decimal.simps [simp del]

definition http_exception_str :: "nat \<Rightarrow> string \<Rightarrow> string" where
  "http_exception_str code msg = decimal code @ '': '' @ msg"

definition example_text :: string where
  "example_text = ''  The quick brown fox jumps over the lazy dog near the old river bank.  ''"

definition example_request :: TextSummarizeRequest where
  "example_request = \<lparr>text' = example_text, max_length = None, style = Some ''concise''\<rparr>"

definition empty_request :: TextSummarizeRequest where
  "empty_request = \<lparr>text' = [], max_length = None, style = Some ''concise''\<rparr>"

text \<open>A client whose every call raises an exception with the given text.\<close>

definition failing_client :: "string \<Rightarrow> writer_client" where
  "failing_client msg =
     \<lparr>chat = (\<lambda>args. Inl (PyException msg)), chat_stream = (\<lambda>args. Inl (PyException msg))\<rparr>"

text \<open>A client that answers with one choice, and streams the given items.\<close>

definition replying_client :: "string \<Rightarrow> stream_item list \<Rightarrow> writer_client" where
  "replying_client reply upstream =
     \<lparr>chat = (\<lambda>args. Inr [Some reply]), chat_stream = (\<lambda>args. Inr upstream)\<rparr>"

definition example_upstream :: "stream_item list" where
  "example_upstream =
     [Next [Delta (Some ''A fox'')], Next [Delta None], Next [NoContentAttr],
      Next [Delta (Some [])], Next [Delta (Some '' jumps.'')]]"

section \<open>Properties\<close>

subsection \<open>Auxiliary facts: strings\<close>

lemma str_in_iff: "str_in needle hay \<longleftrightarrow> (\<exists>pre post. hay = pre @ needle @ post)"
proof (induction hay)
  case Nil
  then show ?case by auto
next
  case (Cons c cs)
  show ?case
  proof
    assume "str_in needle (c # cs)"
    then consider "prefix needle (c # cs)" | "str_in needle cs" by auto
    then show "\<exists>pre post. c # cs = pre @ needle @ post"
    proof cases
      case 1
      then obtain post where "c # cs = needle @ post" by (auto simp: prefix_def)
      then have "c # cs = [] @ needle @ post" by simp
      then show ?thesis by blast
    next
      case 2
      with Cons.IH obtain pre post where "cs = pre @ needle @ post" by blast
      then have "c # cs = (c # pre) @ needle @ post" by simp
      then show ?thesis by blast
    qed
  next
    assume "\<exists>pre post. c # cs = pre @ needle @ post"
    then obtain pre post where eq: "c # cs = pre @ needle @ post" by blast
    show "str_in needle (c # cs)"
    proof (cases pre)
      case Nil
      with eq have "prefix needle (c # cs)" by (simp add: prefix_def)
      then show ?thesis by simp
    next
      case (Cons p ps)
      with eq have "cs = ps @ needle @ post" by simp
      with Cons.IH have "str_in needle cs" by blast
      then show ?thesis by simp
    qed
  qed
qed

lemma lower_append: "lower (a @ b) = lower a @ lower b"
  by (simp add: lower_def)

lemma contains_ignoring_case_iff:
  "contains_ignoring_case indicator s \<longleftrightarrow> str_in (lower indicator) (lower s)"
proof
  assume "contains_ignoring_case indicator s"
  then obtain pre mid post where "s = pre @ mid @ post" "lower mid = lower indicator"
    by (auto simp: contains_ignoring_case_def)
  then have "lower s = lower pre @ lower indicator @ lower post"
    by (simp add: lower_append)
  then show "str_in (lower indicator) (lower s)"
    unfolding str_in_iff by blast
next
  assume "str_in (lower indicator) (lower s)"
  then obtain p q where "map lower_char s = p @ lower indicator @ q"
    unfolding str_in_iff lower_def by blast
  then have "\<exists>us vs. s = us @ vs \<and> p = map lower_char us
                \<and> lower indicator @ q = map lower_char vs"
    by (simp add: map_eq_append_conv)
  then obtain pre rest where s: "s = pre @ rest"
    and rest: "map lower_char rest = lower indicator @ q"
    by auto
  from rest have "\<exists>us vs. rest = us @ vs \<and> lower indicator = map lower_char us
                \<and> q = map lower_char vs"
    by (simp add: map_eq_append_conv)
  then obtain mid post where "rest = mid @ post" "map lower_char mid = lower indicator"
    by auto
  with s show "contains_ignoring_case indicator s"
    by (auto simp: contains_ignoring_case_def lower_def)
qed

lemma lower_api_key: "lower ''api_key'' = ''api_key''"
  by code_simp

lemma lower_rate_limit: "lower ''rate limit'' = ''rate limit''"
  by code_simp

lemma except_clause_spec:
  "except_clause s =
     (if contains_ignoring_case ''api_key'' s then
        HTTPError 401 ''Writer API key not configured. Please set WRITER_API_KEY environment variable.''
      else if contains_ignoring_case ''rate limit'' s then
        HTTPError 429 ''Rate limit exceeded. Please try again later.''
      else HTTPError 500 (''Error generating summary: '' @ s))"
  by (simp only: except_clause_def contains_ignoring_case_iff lower_api_key lower_rate_limit)

lemma except_clause_status:
  "status_code (except_clause s) = 401 \<or> status_code (except_clause s) = 429
   \<or> status_code (except_clause s) = 500"
  by (simp add: except_clause_def)

subsection \<open>Auxiliary facts: the handlers\<close>

lemma summarize_text_raises:
  "fst (summarize_text_try client request) = Inl e \<Longrightarrow>
   summarize_text hstr client request
     = (Inl (except_clause (str_exn hstr e)), snd (summarize_text_try client request))"
  by (cases "summarize_text_try client request") (simp add: summarize_text_def)

lemma summarize_text_returns:
  "fst (summarize_text_try client request) = Inr r \<Longrightarrow>
   summarize_text hstr client request = (Inr r, snd (summarize_text_try client request))"
  by (cases "summarize_text_try client request") (simp add: summarize_text_def)

lemma short_text_try:
  "length (strip (text' request)) < 50 \<Longrightarrow>
   summarize_text_try client request
     = (Inl (HTTPException 400
          (if strip (text' request) = [] then ''Text cannot be empty''
           else ''Text must be at least 50 characters long'')), [])"
  by (simp add: summarize_text_try_def)

lemma short_text_stream_try:
  "length (strip (text' request)) < 50 \<Longrightarrow>
   summarize_text_stream_try hstr client request
     = (Inl (HTTPException 400
          (if strip (text' request) = [] then ''Text cannot be empty''
           else ''Text must be at least 50 characters long'')), [])"
  by (simp add: summarize_text_stream_try_def)

lemma short_text_rejected:
  assumes "length (strip (text' request)) < 50"
  shows "summarize_text hstr client request
           = (Inl (except_clause (hstr 400
                (if strip (text' request) = [] then ''Text cannot be empty''
                 else ''Text must be at least 50 characters long''))), [])"
    and "summarize_text_stream hstr client request
           = (Inl (except_clause (hstr 400
                (if strip (text' request) = [] then ''Text cannot be empty''
                 else ''Text must be at least 50 characters long''))), [])"
  using assms
  by (simp_all add: summarize_text_def summarize_text_stream_def short_text_try
        short_text_stream_try)

lemma status_of_except_clause: "status_of (Inl (except_clause s)) \<noteq> 400"
  using except_clause_status [of s] by (auto simp: status_of_def)

text \<open>
  A text that fails either validation check: both handlers raise, with a status other than
  400, and make no upstream call.
\<close>

lemma invalid_text_is_not_400:
  assumes "length (strip (text' request)) < 50"
  shows "status_of (fst (summarize_text hstr client request)) \<noteq> 400
         \<and> status_of (fst (summarize_text_stream hstr client request)) \<noteq> 400
         \<and> snd (summarize_text hstr client request) = []
         \<and> snd (summarize_text_stream hstr client request) = []"
  by (simp add: short_text_rejected [OF assms] status_of_except_clause)

subsection \<open>Auxiliary facts: the relay loop\<close>

lemma relay_chunks: "list_all is_chunk (fst (relay upstream acc))"
  by (induction upstream acc rule: relay.induct) (auto split: prod.splits)

lemma relay_summary:
  "snd (relay upstream acc) = Inr t \<Longrightarrow>
   t = acc @ concat (chunk_contents (fst (relay upstream acc)))"
  by (induction upstream acc arbitrary: t rule: relay.induct)
     (auto split: prod.splits if_splits)

lemma relay_skip_head:
  assumes "first_choice_without_text c"
  shows "relay (Next c # post) acc = relay post acc"
proof (cases c)
  case Nil
  with assms show ?thesis by simp
next
  case (Cons d ds)
  with assms show ?thesis by (cases d rule: delta_without_text.cases) auto
qed

lemma relay_skip:
  "first_choice_without_text c \<Longrightarrow> relay (pre @ Next c # post) acc = relay (pre @ post) acc"
proof (induction pre acc rule: relay.induct)
  case (1 summary_text)
  then show ?case by (simp add: relay_skip_head)
qed auto

text \<open>
  The loop runs to the end of the upstream stream without an exception exactly when the
  stream is relayed without an error in the sense of \<open>completes_without_error\<close>.
\<close>

lemma relay_completes_iff:
  "(\<exists>t. snd (relay upstream acc) = Inr t) \<longleftrightarrow> completes_without_error upstream"
  unfolding completes_without_error_def
  by (induction upstream acc rule: relay.induct) (auto split: prod.splits)

lemma is_chunk_not_terminal: "is_chunk e \<Longrightarrow> \<not> is_terminal e"
  by (cases e) auto

lemma filter_terminal_chunks: "list_all is_chunk xs \<Longrightarrow> filter is_terminal xs = []"
  by (induction xs) (auto simp: is_chunk_not_terminal)

lemma generate_stream_shape:
  "\<exists>events t. fst (generate_stream hstr client request prompt wc) = events @ [t]
     \<and> list_all is_chunk events \<and> is_terminal t"
proof -
  let ?args = "\<lparr>model = ''palmyra-x-004'', messages = [(''user'', prompt)],
                  max_tokens = max_tokens_of (max_length request),
                  temperature = fl (3 / 10), stream = True\<rparr>"
  show ?thesis
  proof (cases "chat_stream client ?args")
    case (Inl e)
    then have "fst (generate_stream hstr client request prompt wc) = [] @ [Error (str_exn hstr e)]"
      by (simp add: generate_stream_def)
    moreover have "list_all is_chunk []" "is_terminal (Error (str_exn hstr e))" by simp_all
    ultimately show ?thesis by blast
  next
    case (Inr upstream)
    obtain events r where rel: "relay upstream [] = (events, r)" by (cases "relay upstream []")
    from relay_chunks[of upstream "[]"] rel have ch: "list_all is_chunk events" by simp
    show ?thesis
    proof (cases r)
      case (Inl e)
      with Inr rel have "fst (generate_stream hstr client request prompt wc)
                           = events @ [Error (str_exn hstr e)]"
        by (simp add: generate_stream_def)
      moreover have "is_terminal (Error (str_exn hstr e))" by simp
      ultimately show ?thesis using ch by blast
    next
      case (Inr t)
      with \<open>chat_stream client ?args = Inr upstream\<close> rel
      have "fst (generate_stream hstr client request prompt wc)
            = events @ [Complete t wc (count_words t) (compression_ratio_of (count_words t) wc)]"
        by (simp add: generate_stream_def Let_def)
      moreover have "is_terminal (Complete t wc (count_words t)
                       (compression_ratio_of (count_words t) wc))" by simp
      ultimately show ?thesis using ch by blast
    qed
  qed
qed

lemma generate_stream_complete:
  assumes "fst (generate_stream hstr client request prompt wc) = events @ [Complete s a b c]"
  shows "concat (chunk_contents events) = s \<and> a = wc \<and> b = count_words s
         \<and> c = compression_ratio_of b a"
proof -
  let ?args = "\<lparr>model = ''palmyra-x-004'', messages = [(''user'', prompt)],
                  max_tokens = max_tokens_of (max_length request),
                  temperature = fl (3 / 10), stream = True\<rparr>"
  show ?thesis
  proof (cases "chat_stream client ?args")
    case (Inl e)
    with assms show ?thesis by (simp add: generate_stream_def)
  next
    case (Inr upstream)
    obtain evs r where rel: "relay upstream [] = (evs, r)" by (cases "relay upstream []")
    show ?thesis
    proof (cases r)
      case (Inl e)
      with Inr rel assms show ?thesis by (simp add: generate_stream_def)
    next
      case (Inr t)
      with \<open>chat_stream client ?args = Inr upstream\<close> rel assms
      have eq: "evs = events" "t = s" "a = wc" "b = count_words t"
        "c = compression_ratio_of (count_words t) wc"
        by (auto simp: generate_stream_def Let_def)
      from relay_summary[of upstream "[]" t] rel Inr have "t = concat (chunk_contents evs)"
        by simp
      with eq show ?thesis by simp
    qed
  qed
qed

lemma stream_body:
  "fst (summarize_text_stream hstr client request) = Inr response \<Longrightarrow>
   body response = fst (generate_stream hstr client request
                      (build_prompt (text' request) (style request))
                      (count_words (text' request)))
   \<and> 50 \<le> length (strip (text' request))"
  by (auto simp: summarize_text_stream_def summarize_text_stream_try_def Let_def
           split: if_splits prod.splits sum.splits)

lemma generate_stream_calls:
  "snd (generate_stream hstr client request prompt wc)
     = [\<lparr>model = ''palmyra-x-004'', messages = [(''user'', prompt)],
         max_tokens = max_tokens_of (max_length request),
         temperature = fl (3 / 10), stream = True\<rparr>]"
  by (auto simp: generate_stream_def Let_def split: sum.splits prod.splits)

lemma stream_calls:
  "50 \<le> length (strip (text' request)) \<Longrightarrow>
   snd (summarize_text_stream hstr client request)
     = [\<lparr>model = ''palmyra-x-004'',
         messages = [(''user'', build_prompt (text' request) (style request))],
         max_tokens = max_tokens_of (max_length request),
         temperature = fl (3 / 10), stream = True\<rparr>]"
  using generate_stream_calls [of hstr client request
          "build_prompt (text' request) (style request)" "count_words (text' request)"]
  by (auto simp: summarize_text_stream_def summarize_text_stream_try_def Let_def
           split: prod.splits)

lemma sync_calls:
  "50 \<le> length (strip (text' request)) \<Longrightarrow>
   snd (summarize_text hstr client request)
     = [\<lparr>model = ''palmyra-x-004'',
         messages = [(''user'', build_prompt (text' request) (style request))],
         max_tokens = max_tokens_of (max_length request),
         temperature = fl (3 / 10), stream = False\<rparr>]"
  by (auto simp: summarize_text_def summarize_text_try_def Let_def
           split: prod.splits sum.splits list.splits option.splits)

lemma sync_response:
  "fst (summarize_text hstr client request) = Inr response \<Longrightarrow>
   original_word_count response = count_words (text' request)
   \<and> summary_word_count response = count_words (summary response)
   \<and> compression_ratio response
       = compression_ratio_of (summary_word_count response) (original_word_count response)"
  by (auto simp: summarize_text_def summarize_text_try_def Let_def
           split: prod.splits sum.splits list.splits option.splits if_splits)

subsection \<open>Auxiliary facts: the example inputs\<close>

lemma example_not_empty: "strip (text' example_request) \<noteq> []"
  by code_simp

lemma example_long: "\<not> length (strip (text' example_request)) < 50"
  by code_simp

lemma example_valid: "50 \<le> length (strip (text' example_request))"
  using example_long by simp

lemma example_words: "count_words (text' example_request) = 14"
  by code_simp

lemma example_relay:
  "relay example_upstream [] = ([Chunk ''A fox'', Chunk '' jumps.''], Inr ''A fox jumps.'')"
  by (simp add: example_upstream_def)

lemma summary_words: "count_words ''A fox jumps.'' = 3"
  by code_simp

lemma example_ratio: "compression_ratio_of 3 14 = fl (786 / 10)"
  by code_simp

subsection \<open>Validation, failures and the stream\<close>

text \<open>
  C1. The request with the empty text is rejected by both handlers and no upstream call is
  made, but never with status 400: the \<open>HTTPException\<close> of the validation is raised inside
  the \<open>try\<close> block and the \<open>except Exception\<close> clause replaces it. With the framework's
  current text of an \<open>HTTPException\<close> the client receives status 500.
\<close>

theorem validation_error_is_not_400:
  "status_of (fst (summarize_text hstr client empty_request)) \<noteq> 400
   \<and> status_of (fst (summarize_text_stream hstr client empty_request)) \<noteq> 400
   \<and> snd (summarize_text hstr client empty_request) = []
   \<and> snd (summarize_text_stream hstr client empty_request) = []
   \<and> fst (summarize_text http_exception_str client empty_request)
       = Inl (HTTPError 500 ''Error generating summary: 400: Text cannot be empty'')
   \<and> fst (summarize_text_stream http_exception_str client empty_request)
       = Inl (HTTPError 500 ''Error generating summary: 400: Text cannot be empty'')"
proof -
  have short: "length (strip (text' empty_request)) < 50"
    by (simp add: empty_request_def strip_def)
  have empty: "strip (text' empty_request) = []"
    by (simp add: empty_request_def strip_def)
  have detail: "except_clause (http_exception_str 400 ''Text cannot be empty'')
                  = HTTPError 500 ''Error generating summary: 400: Text cannot be empty''"
    by code_simp
  have a: "summarize_text hstr client empty_request
             = (Inl (except_clause (hstr 400 ''Text cannot be empty'')), [])"
    and b: "summarize_text_stream hstr client empty_request
             = (Inl (except_clause (hstr 400 ''Text cannot be empty'')), [])"
    using short_text_rejected [OF short, of hstr client] by (simp_all add: empty)
  have c: "summarize_text http_exception_str client empty_request
             = (Inl (HTTPError 500 ''Error generating summary: 400: Text cannot be empty''), [])"
    and d: "summarize_text_stream http_exception_str client empty_request
             = (Inl (HTTPError 500 ''Error generating summary: 400: Text cannot be empty''), [])"
    using short_text_rejected [OF short, of http_exception_str client]
    by (simp_all add: empty detail)
  have e: "status_of (Inl (except_clause (hstr 400 ''Text cannot be empty''))
             :: http_error + TextSummarizeResponse) \<noteq> 400"
    by (rule status_of_except_clause)
  have f: "status_of (Inl (except_clause (hstr 400 ''Text cannot be empty''))
             :: http_error + StreamingResponse) \<noteq> 400"
    by (rule status_of_except_clause)
  show ?thesis
    unfolding a b c d fst_conv snd_conv using e f by simp
qed

text \<open>
  C2. When the call that opens the stream raises, here with a text naming the API key, the
  streaming handler still answers with status 200 and a stream whose only event is the
  \<open>error\<close> event; the synchronous handler maps the same failure to status 401.
\<close>

theorem stream_open_failure_is_an_event:
  "fst (summarize_text_stream http_exception_str (failing_client ''Invalid api_key'')
          example_request)
     = Inr \<lparr>body = [Error ''Invalid api_key''], media_type = ''text/event-stream'',
             headers = [(''Cache-Control'', ''no-cache''), (''Connection'', ''keep-alive''),
                        (''X-Accel-Buffering'', ''no'')]\<rparr>
   \<and> status_of (fst (summarize_text_stream http_exception_str
                        (failing_client ''Invalid api_key'') example_request)) = 200
   \<and> fst (summarize_text http_exception_str (failing_client ''Invalid api_key'')
            example_request)
       = Inl (HTTPError 401
           ''Writer API key not configured. Please set WRITER_API_KEY environment variable.'')"
  by code_simp

text \<open>
  C3. Whatever exception leaves the \<open>try\<close> block of the synchronous handler, the handler
  answers with an HTTP error chosen by a case-insensitive substring match on \<open>str(e)\<close>:
  401 with a fixed message when it contains \<open>api_key\<close>, else 429 with a fixed message when
  it contains \<open>rate limit\<close>, else 500 with the text of the exception in the detail.
\<close>

theorem exception_classification:
  assumes "fst (summarize_text_try client request) = Inl e"
  shows "fst (summarize_text hstr client request)
           = Inl (if contains_ignoring_case ''api_key'' (str_exn hstr e) then
                    HTTPError 401 ''Writer API key not configured. Please set WRITER_API_KEY environment variable.''
                  else if contains_ignoring_case ''rate limit'' (str_exn hstr e) then
                    HTTPError 429 ''Rate limit exceeded. Please try again later.''
                  else HTTPError 500 (''Error generating summary: '' @ str_exn hstr e))"
  using summarize_text_raises [OF assms, of hstr] by (simp add: except_clause_spec)

theorem exception_classification_witness:
  "fst (summarize_text_try (failing_client ''Upstream says: Rate Limit reached'') example_request)
     = Inl (PyException ''Upstream says: Rate Limit reached'')
   \<and> fst (summarize_text http_exception_str
            (failing_client ''Upstream says: Rate Limit reached'') example_request)
       = Inl (HTTPError 429 ''Rate limit exceeded. Please try again later.'')"
proof -
  have h: "fst (summarize_text_try (failing_client ''Upstream says: Rate Limit reached'')
                  example_request)
             = Inl (PyException ''Upstream says: Rate Limit reached'')"
    by code_simp
  have no_key: "\<not> contains_ignoring_case ''api_key'' ''Upstream says: Rate Limit reached''"
    unfolding contains_ignoring_case_iff by code_simp
  have rate: "contains_ignoring_case ''rate limit'' ''Upstream says: Rate Limit reached''"
    unfolding contains_ignoring_case_iff by code_simp
  show ?thesis
    using exception_classification [OF h, of http_exception_str] h no_key rate by simp
qed

lemma complete_event_summary:
  assumes "fst (summarize_text_stream hstr client request) = Inr response"
    and "body response = events @ [Complete s wc swc ratio]"
  shows "list_all is_chunk events \<and> concat (chunk_contents events) = s"
proof -
  let ?g = "generate_stream hstr client request
              (build_prompt (text' request) (style request)) (count_words (text' request))"
  from stream_body [OF assms(1)] assms(2)
  have g: "fst ?g = events @ [Complete s wc swc ratio]" by simp
  from generate_stream_shape [of hstr client request
         "build_prompt (text' request) (style request)" "count_words (text' request)"]
  obtain evs t where "fst ?g = evs @ [t]" "list_all is_chunk evs" by blast
  with g have "list_all is_chunk events" by simp
  with generate_stream_complete [OF g] show ?thesis by simp
qed

lemma error_free_upstream_completes:
  assumes "50 \<le> length (strip (text' request))"
    and "chat_stream client
           \<lparr>model = ''palmyra-x-004'',
            messages = [(''user'', build_prompt (text' request) (style request))],
            max_tokens = max_tokens_of (max_length request),
            temperature = fl (3 / 10), stream = True\<rparr> = Inr upstream"
    and "completes_without_error upstream"
  shows "\<exists>response events s o_wc s_wc ratio.
           fst (summarize_text_stream hstr client request) = Inr response
           \<and> body response = events @ [Complete s o_wc s_wc ratio]"
proof -
  from assms(3) relay_completes_iff [of upstream "[]"]
  obtain t where "snd (relay upstream []) = Inr t" by blast
  then obtain events where rel: "relay upstream [] = (events, Inr t)"
    by (cases "relay upstream []") simp
  let ?wc = "count_words (text' request)"
  let ?response = "\<lparr>body = events @ [Complete t ?wc (count_words t)
                                        (compression_ratio_of (count_words t) ?wc)],
                     media_type = ''text/event-stream'',
                     headers = [(''Cache-Control'', ''no-cache''),
                                (''Connection'', ''keep-alive''),
                                (''X-Accel-Buffering'', ''no'')]\<rparr>"
  from assms(1) have valid: "strip (text' request) \<noteq> []"
    "\<not> length (strip (text' request)) < 50"
    by auto
  from valid assms(2) rel
  have "fst (summarize_text_stream hstr client request) = Inr ?response"
    by (simp add: summarize_text_stream_def summarize_text_stream_try_def generate_stream_def
          Let_def)
  moreover have "body ?response = events @ [Complete t ?wc (count_words t)
                                        (compression_ratio_of (count_words t) ?wc)]"
    by simp
  ultimately show ?thesis by blast
qed

text \<open>
  C4. When the upstream stream of a streaming request is relayed to its end without an
  error, the stream sent to the client ends with a \<open>complete\<close> event, every event before it is
  a \<open>chunk\<close> event, and the concatenation of their contents, in emission order, is the
  \<open>summary\<close> of the \<open>complete\<close> event. Moreover, whatever the upstream stream is, a stream
  that ends with a \<open>complete\<close> event has that property.
\<close>

theorem stream_summary_is_concatenation:
  "(50 \<le> length (strip (text' request))
      \<and> chat_stream client
           \<lparr>model = ''palmyra-x-004'',
            messages = [(''user'', build_prompt (text' request) (style request))],
            max_tokens = max_tokens_of (max_length request),
            temperature = fl (3 / 10), stream = True\<rparr> = Inr upstream
      \<and> completes_without_error upstream
    \<longrightarrow> (\<exists>response events s o_wc s_wc ratio.
           fst (summarize_text_stream hstr client request) = Inr response
           \<and> body response = events @ [Complete s o_wc s_wc ratio]
           \<and> list_all is_chunk events
           \<and> concat (chunk_contents events) = s))
   \<and> (fst (summarize_text_stream hstr client request) = Inr response'
         \<and> body response' = events' @ [Complete s' o_wc' s_wc' ratio']
       \<longrightarrow> list_all is_chunk events' \<and> concat (chunk_contents events') = s')"
proof (intro conjI impI)
  assume a: "50 \<le> length (strip (text' request))
      \<and> chat_stream client
           \<lparr>model = ''palmyra-x-004'',
            messages = [(''user'', build_prompt (text' request) (style request))],
            max_tokens = max_tokens_of (max_length request),
            temperature = fl (3 / 10), stream = True\<rparr> = Inr upstream
      \<and> completes_without_error upstream"
  then obtain response events s o_wc s_wc ratio
    where r: "fst (summarize_text_stream hstr client request) = Inr response"
      and b: "body response = events @ [Complete s o_wc s_wc ratio]"
    using error_free_upstream_completes [of request client upstream hstr] by blast
  from complete_event_summary [OF r b] r b
  show "\<exists>response events s o_wc s_wc ratio.
           fst (summarize_text_stream hstr client request) = Inr response
           \<and> body response = events @ [Complete s o_wc s_wc ratio]
           \<and> list_all is_chunk events
           \<and> concat (chunk_contents events) = s"
    by blast
next
  assume "fst (summarize_text_stream hstr client request) = Inr response'
         \<and> body response' = events' @ [Complete s' o_wc' s_wc' ratio']"
  then show "list_all is_chunk events'" "concat (chunk_contents events') = s'"
    using complete_event_summary [of hstr client request response' events' s' o_wc' s_wc' ratio']
    by blast+
qed

theorem stream_summary_is_concatenation_witness:
  "50 \<le> length (strip (text' example_request))
   \<and> chat_stream (replying_client [] example_upstream)
        \<lparr>model = ''palmyra-x-004'',
         messages = [(''user'', build_prompt (text' example_request) (style example_request))],
         max_tokens = max_tokens_of (max_length example_request),
         temperature = fl (3 / 10), stream = True\<rparr> = Inr example_upstream
   \<and> completes_without_error example_upstream
   \<and> (\<exists>response events s o_wc s_wc ratio.
         fst (summarize_text_stream http_exception_str (replying_client [] example_upstream)
                example_request) = Inr response
         \<and> body response = events @ [Complete s o_wc s_wc ratio]
         \<and> list_all is_chunk events
         \<and> concat (chunk_contents events) = s)
   \<and> fst (summarize_text_stream http_exception_str (replying_client [] example_upstream)
            example_request)
       = Inr \<lparr>body = [Chunk ''A fox'', Chunk '' jumps.'']
                       @ [Complete ''A fox jumps.'' 14 3 (fl (786 / 10))],
               media_type = ''text/event-stream'',
               headers = [(''Cache-Control'', ''no-cache''), (''Connection'', ''keep-alive''),
                          (''X-Accel-Buffering'', ''no'')]\<rparr>
   \<and> concat (chunk_contents [Chunk ''A fox'', Chunk '' jumps.'']) = ''A fox jumps.''"
proof -
  note h1 = example_valid
  have h2: "chat_stream (replying_client [] example_upstream)
        \<lparr>model = ''palmyra-x-004'',
         messages = [(''user'', build_prompt (text' example_request) (style example_request))],
         max_tokens = max_tokens_of (max_length example_request),
         temperature = fl (3 / 10), stream = True\<rparr> = Inr example_upstream"
    by (simp add: replying_client_def)
  have h3: "completes_without_error example_upstream"
    by (simp add: completes_without_error_def example_upstream_def)
  have h: "fst (summarize_text_stream http_exception_str (replying_client [] example_upstream)
                  example_request)
     = Inr \<lparr>body = [Chunk ''A fox'', Chunk '' jumps.'']
                     @ [Complete ''A fox jumps.'' 14 3 (fl (786 / 10))],
             media_type = ''text/event-stream'',
             headers = [(''Cache-Control'', ''no-cache''), (''Connection'', ''keep-alive''),
                        (''X-Accel-Buffering'', ''no'')]\<rparr>"
    by (simp add: summarize_text_stream_def summarize_text_stream_try_def generate_stream_def
          replying_client_def Let_def example_not_empty example_long example_words
          example_relay summary_words example_ratio)
  have c: "concat (chunk_contents [Chunk ''A fox'', Chunk '' jumps.'']) = ''A fox jumps.''"
    by simp
  from stream_summary_is_concatenation
         [where request = example_request and client = "replying_client [] example_upstream"
            and upstream = example_upstream and hstr = http_exception_str,
          THEN conjunct1, THEN mp, OF conjI [OF h1 conjI [OF h2 h3]]]
  have e: "\<exists>response events s o_wc s_wc ratio.
         fst (summarize_text_stream http_exception_str (replying_client [] example_upstream)
                example_request) = Inr response
         \<and> body response = events @ [Complete s o_wc s_wc ratio]
         \<and> list_all is_chunk events
         \<and> concat (chunk_contents events) = s" .
  from h1 h2 h3 e h c show ?thesis by (intro conjI)
qed

subsection \<open>Auxiliary facts: the upstream arguments\<close>

lemma max_length_zero_try:
  "summarize_text_try client (request\<lparr>max_length := Some 0\<rparr>)
     = summarize_text_try client (request\<lparr>max_length := None\<rparr>)"
  by (simp add: summarize_text_try_def max_tokens_of_def)

lemma max_length_zero_stream_try:
  "summarize_text_stream_try hstr client (request\<lparr>max_length := Some 0\<rparr>)
     = summarize_text_stream_try hstr client (request\<lparr>max_length := None\<rparr>)"
  by (simp add: summarize_text_stream_try_def generate_stream_def max_tokens_of_def)

lemma sync_calls_short:
  "length (strip (text' request)) < 50 \<Longrightarrow> snd (summarize_text hstr client request) = []"
  using short_text_rejected(1) [of request hstr client] by simp

lemma stream_calls_short:
  "length (strip (text' request)) < 50 \<Longrightarrow> snd (summarize_text_stream hstr client request) = []"
  using short_text_rejected(2) [of request hstr client] by simp

lemma sync_call_args:
  assumes "args \<in> set (snd (summarize_text hstr client request))"
  shows "temperature args = fl (3 / 10) \<and> max_tokens args = max_tokens_of (max_length request)"
proof (cases "length (strip (text' request)) < 50")
  case True
  from sync_calls_short [OF True, of hstr client] assms show ?thesis by simp
next
  case False
  then have "50 \<le> length (strip (text' request))" by simp
  from sync_calls [OF this, of hstr client] assms show ?thesis by simp
qed

lemma stream_call_args:
  assumes "args \<in> set (snd (summarize_text_stream hstr client request))"
  shows "temperature args = fl (3 / 10) \<and> max_tokens args = max_tokens_of (max_length request)"
proof (cases "length (strip (text' request)) < 50")
  case True
  from stream_calls_short [OF True, of hstr client] assms show ?thesis by simp
next
  case False
  then have "50 \<le> length (strip (text' request))" by simp
  from stream_calls [OF this, of hstr client] assms show ?thesis by simp
qed

lemma example_valid_max_length:
  "50 \<le> length (strip (text' (example_request\<lparr>max_length := ml\<rparr>)))"
  using example_valid by (simp add: example_request_def)

subsection \<open>Auxiliary facts: rounding and word counts\<close>

lemma round_half_even_nearest: "\<bar>x - of_int (round_half_even x)\<bar> \<le> 1 / 2"
proof -
  define f where "f = \<lfloor>x\<rfloor>"
  have bounds: "of_int f \<le> x" "x < of_int f + 1" unfolding f_def by linarith+
  have "round_half_even x = f \<and> x - of_int f \<le> 1 / 2
        \<or> round_half_even x = f + 1 \<and> 1 / 2 \<le> x - of_int f"
    unfolding round_half_even_def Let_def f_def [symmetric] by auto
  with bounds show ?thesis by (auto simp: abs_if)
qed

lemma split_acc_nonempty: "w \<noteq> [] \<Longrightarrow> split_acc w s \<noteq> []"
  by (induction s arbitrary: w) auto

lemma strip_hd:
  assumes "strip s \<noteq> []"
  shows "\<not> isspace (hd (strip s))"
proof -
  let ?ys = "dropWhile isspace s"
  have "suffix (dropWhile isspace (rev ?ys)) (rev ?ys)" by (rule suffix_dropWhile)
  then obtain zs where "rev ?ys = zs @ dropWhile isspace (rev ?ys)" by (auto simp: suffix_def)
  then have "?ys = strip s @ rev zs"
    by (metis rev_append rev_rev_ident strip_def)
  with assms have "hd (strip s) = hd ?ys" "?ys \<noteq> []" by auto
  then show ?thesis using hd_dropWhile [of isspace s] by simp
qed

lemma count_words_positive:
  assumes "strip s \<noteq> []"
  shows "0 < count_words s"
proof -
  obtain c cs where cs: "strip s = c # cs" using assms by (cases "strip s") auto
  with strip_hd [OF assms] have "\<not> isspace c" by simp
  then have "split (strip s) \<noteq> []"
    unfolding cs split_def using split_acc_nonempty [of "[c]" cs] by simp
  then show ?thesis by (simp add: count_words_def)
qed

lemma float_round_nearest:
  "\<exists>k. float_round x 1 = fl (of_int k / 10) \<and> \<bar>x * 10 - of_int k\<bar> \<le> 1 / 2"
  using round_half_even_nearest [of "x * 10"] by (auto simp: float_round_def)

lemma original_word_count_positive:
  "fst (summarize_text hstr client request) = Inr response \<Longrightarrow> 0 < original_word_count response"
  using count_words_positive [of "text' request"]
  by (auto simp: summarize_text_def summarize_text_try_def Let_def
           split: prod.splits sum.splits list.splits option.splits if_splits)

lemma doubled_words: "count_words (strip (example_text @ example_text)) = 28"
  by code_simp

lemma doubled_ratio: "compression_ratio_of 28 14 = - 100"
  by code_simp

lemma doubled_response:
  "fst (summarize_text http_exception_str (replying_client (example_text @ example_text) [])
          example_request)
     = Inr \<lparr>summary = strip (example_text @ example_text), original_word_count = 14,
             summary_word_count = 28, compression_ratio = - 100\<rparr>"
  by (simp add: summarize_text_def summarize_text_try_def replying_client_def Let_def
        example_not_empty example_long example_words doubled_words doubled_ratio)

lemma example_stream_response:
  "fst (summarize_text_stream http_exception_str (replying_client [] example_upstream)
          example_request)
     = Inr \<lparr>body = [Chunk ''A fox'', Chunk '' jumps.'']
                     @ [Complete ''A fox jumps.'' 14 3 (fl (786 / 10))],
             media_type = ''text/event-stream'',
             headers = [(''Cache-Control'', ''no-cache''), (''Connection'', ''keep-alive''),
                        (''X-Accel-Buffering'', ''no'')]\<rparr>"
  by (simp add: summarize_text_stream_def summarize_text_stream_try_def generate_stream_def
        replying_client_def Let_def example_not_empty example_long example_words
        example_relay summary_words example_ratio)

subsection \<open>The event stream\<close>

text \<open>
  C5. Every stream ends with exactly one terminal event, \<open>complete\<close> or \<open>error\<close>: the events
  before it are all \<open>chunk\<close> events, it is the last event, and it is the only terminal event
  of the stream.
\<close>

theorem stream_has_one_terminal_event:
  assumes "fst (summarize_text_stream hstr client request) = Inr response"
  shows "(\<exists>events t. body response = events @ [t] \<and> list_all is_chunk events \<and> is_terminal t)
         \<and> length (filter is_terminal (body response)) = 1"
proof -
  from stream_body [OF assms] generate_stream_shape [of hstr client request
         "build_prompt (text' request) (style request)" "count_words (text' request)"]
  obtain events t where b: "body response = events @ [t]"
    and c: "list_all is_chunk events" and t: "is_terminal t"
    by auto
  from filter_terminal_chunks [OF c] b t
  have "length (filter is_terminal (body response)) = 1" by simp
  with b c t show ?thesis by blast
qed

theorem stream_has_one_terminal_event_witness:
  "fst (summarize_text_stream http_exception_str
          (replying_client [] [Next [Delta (Some ''A fox'')], Raises (PyException ''connection reset''),
                               Next [Delta (Some '' jumps.'')]])
          example_request)
     = Inr \<lparr>body = [Chunk ''A fox'', Error ''connection reset''],
             media_type = ''text/event-stream'',
             headers = [(''Cache-Control'', ''no-cache''), (''Connection'', ''keep-alive''),
                        (''X-Accel-Buffering'', ''no'')]\<rparr>
   \<and> (\<exists>events t. [Chunk ''A fox'', Error ''connection reset''] = events @ [t]
          \<and> list_all is_chunk events \<and> is_terminal t)
   \<and> length (filter is_terminal [Chunk ''A fox'', Error ''connection reset'']) = 1"
proof -
  have h: "fst (summarize_text_stream http_exception_str
          (replying_client [] [Next [Delta (Some ''A fox'')], Raises (PyException ''connection reset''),
                               Next [Delta (Some '' jumps.'')]])
          example_request)
     = Inr \<lparr>body = [Chunk ''A fox'', Error ''connection reset''],
             media_type = ''text/event-stream'',
             headers = [(''Cache-Control'', ''no-cache''), (''Connection'', ''keep-alive''),
                        (''X-Accel-Buffering'', ''no'')]\<rparr>"
    by (simp add: summarize_text_stream_def summarize_text_stream_try_def generate_stream_def
          replying_client_def Let_def example_not_empty example_long example_words)
  from stream_has_one_terminal_event [OF h] h show ?thesis by simp
qed

text \<open>
  C8. An upstream chunk whose first choice carries no text content, that is, whose first
  delta has no \<open>content\<close> attribute or has the content \<open>None\<close> or the empty string, is
  skipped: the relay loop, and with it the whole answer of the streaming handler, is the same
  as without that chunk. So no event is sent for it, no error is raised and the chunks after
  it are still relayed.
\<close>

theorem contentless_chunk_is_skipped:
  assumes "first_choice_without_text c"
  shows "relay (pre @ Next c # post) acc = relay (pre @ post) acc
         \<and> summarize_text_stream hstr (replying_client reply (pre @ Next c # post)) request
             = summarize_text_stream hstr (replying_client reply (pre @ post)) request"
  using relay_skip [OF assms]
  by (simp add: summarize_text_stream_def summarize_text_stream_try_def generate_stream_def
        replying_client_def)

theorem contentless_chunk_is_skipped_witness:
  "first_choice_without_text [Delta None]
   \<and> relay ([Next [Delta (Some ''A fox'')]] @ Next [Delta None] # [Next [Delta (Some '' jumps.'')]]) []
       = ([Chunk ''A fox'', Chunk '' jumps.''], Inr ''A fox jumps.'')"
proof -
  have h: "first_choice_without_text [Delta None]" by simp
  have r: "relay ([Next [Delta (Some ''A fox'')]] @ [Next [Delta (Some '' jumps.'')]]) []
             = ([Chunk ''A fox'', Chunk '' jumps.''], Inr ''A fox jumps.'')"
    by simp
  from contentless_chunk_is_skipped [OF h, of "[Next [Delta (Some ''A fox'')]]"
         "[Next [Delta (Some '' jumps.'')]]" "[]"] r h
  show ?thesis by simp
qed

text \<open>
  A chunk with no choices carries no text content and is not skipped: \<open>chunk.choices[0]\<close>
  raises \<open>IndexError\<close>, the stream ends with an \<open>error\<close> event, and the chunk after it is not
  relayed. Without that chunk the same stream is relayed to its \<open>complete\<close> event.
\<close>

theorem chunk_without_choices_ends_stream:
  "carries_no_text []
   \<and> relay ([Next [Delta (Some ''A fox'')]] @ Next [] # [Next [Delta (Some '' jumps.'')]]) []
       = ([Chunk ''A fox''], Inl index_error)
   \<and> relay ([Next [Delta (Some ''A fox'')]] @ [Next [Delta (Some '' jumps.'')]]) []
       = ([Chunk ''A fox'', Chunk '' jumps.''], Inr ''A fox jumps.'')
   \<and> fst (summarize_text_stream http_exception_str
            (replying_client [] ([Next [Delta (Some ''A fox'')]] @ Next []
                                   # [Next [Delta (Some '' jumps.'')]]))
            example_request)
       = Inr \<lparr>body = [Chunk ''A fox'', Error ''list index out of range''],
               media_type = ''text/event-stream'',
               headers = [(''Cache-Control'', ''no-cache''), (''Connection'', ''keep-alive''),
                          (''X-Accel-Buffering'', ''no'')]\<rparr>"
  by (simp add: carries_no_text_def summarize_text_stream_def summarize_text_stream_try_def
        generate_stream_def replying_client_def Let_def index_error_def
        example_not_empty example_long example_words)

subsection \<open>The statistics\<close>

text \<open>
  C6. In the response of the synchronous handler, and in the \<open>complete\<close> event of a stream,
  the original word count \<open>o\<close> is the word count of the request's text, the summary word count
  \<open>s\<close> is the word count of the summary, and the compression ratio is
  \<open>round((1 - s / o) * 100, 1)\<close> in float arithmetic when \<open>0 < o\<close> and \<open>0\<close> otherwise. The
  ratio is not clamped: some response has more words in the summary than in the original, and
  a negative ratio.
\<close>

theorem compression_ratio_formula:
  "(fst (summarize_text hstr client request) = Inr response \<longrightarrow>
      original_word_count response = count_words (text' request)
      \<and> summary_word_count response = count_words (summary response)
      \<and> compression_ratio response
          = (if 0 < original_word_count response
             then float_round
                    (fl (fl (1 - fl (of_nat (summary_word_count response)
                                      / of_nat (original_word_count response))) * 100)) 1
             else 0))
   \<and> (fst (summarize_text_stream hstr client request) = Inr streaming
        \<and> body streaming = events @ [Complete s o_wc s_wc ratio] \<longrightarrow>
      o_wc = count_words (text' request) \<and> s_wc = count_words s
      \<and> ratio = (if 0 < o_wc
                  then float_round (fl (fl (1 - fl (of_nat s_wc / of_nat o_wc)) * 100)) 1
                  else 0))
   \<and> (\<exists>client' request' response'.
         fst (summarize_text hstr client' request') = Inr response'
         \<and> original_word_count response' < summary_word_count response'
         \<and> compression_ratio response' < 0)"
proof -
  have sync: "fst (summarize_text hstr client request) = Inr response \<longrightarrow>
      original_word_count response = count_words (text' request)
      \<and> summary_word_count response = count_words (summary response)
      \<and> compression_ratio response
          = (if 0 < original_word_count response
             then float_round
                    (fl (fl (1 - fl (of_nat (summary_word_count response)
                                      / of_nat (original_word_count response))) * 100)) 1
             else 0)"
    using sync_response [of hstr client request response]
    by (simp add: compression_ratio_of_def)
  have stream: "fst (summarize_text_stream hstr client request) = Inr streaming
        \<and> body streaming = events @ [Complete s o_wc s_wc ratio] \<longrightarrow>
      o_wc = count_words (text' request) \<and> s_wc = count_words s
      \<and> ratio = (if 0 < o_wc
                  then float_round (fl (fl (1 - fl (of_nat s_wc / of_nat o_wc)) * 100)) 1
                  else 0)"
  proof
    assume a: "fst (summarize_text_stream hstr client request) = Inr streaming
        \<and> body streaming = events @ [Complete s o_wc s_wc ratio]"
    from stream_body [of hstr client request streaming] a
    have "fst (generate_stream hstr client request
                 (build_prompt (text' request) (style request)) (count_words (text' request)))
            = events @ [Complete s o_wc s_wc ratio]"
      by simp
    from generate_stream_complete [OF this]
    show "o_wc = count_words (text' request) \<and> s_wc = count_words s
      \<and> ratio = (if 0 < o_wc
                  then float_round (fl (fl (1 - fl (of_nat s_wc / of_nat o_wc)) * 100)) 1
                  else 0)"
      by (simp add: compression_ratio_of_def)
  qed
  have "fst (summarize_text hstr (replying_client (example_text @ example_text) [])
               example_request)
          = Inr \<lparr>summary = strip (example_text @ example_text), original_word_count = 14,
                  summary_word_count = 28, compression_ratio = - 100\<rparr>"
    by (simp add: summarize_text_def summarize_text_try_def replying_client_def Let_def
          example_not_empty example_long example_words doubled_words doubled_ratio)
  then have neg: "\<exists>client' request' response'.
         fst (summarize_text hstr client' request') = Inr response'
         \<and> original_word_count response' < summary_word_count response'
         \<and> compression_ratio response' < 0"
    by (intro exI [of _ "replying_client (example_text @ example_text) []"]
              exI [of _ example_request]
              exI [of _ "\<lparr>summary = strip (example_text @ example_text),
                           original_word_count = 14, summary_word_count = 28,
                           compression_ratio = - 100\<rparr>"]) simp
  from sync stream neg show ?thesis by blast
qed

theorem compression_ratio_formula_witness:
  "fst (summarize_text http_exception_str (replying_client (example_text @ example_text) [])
          example_request)
     = Inr \<lparr>summary = strip (example_text @ example_text), original_word_count = 14,
             summary_word_count = 28, compression_ratio = - 100\<rparr>
   \<and> float_round (fl (fl (1 - fl (of_nat 28 / of_nat 14)) * 100)) 1 = (- 100 :: rat)
   \<and> fst (summarize_text_stream http_exception_str (replying_client [] example_upstream)
          example_request)
     = Inr \<lparr>body = [Chunk ''A fox'', Chunk '' jumps.'']
                     @ [Complete ''A fox jumps.'' 14 3 (fl (786 / 10))],
             media_type = ''text/event-stream'',
             headers = [(''Cache-Control'', ''no-cache''), (''Connection'', ''keep-alive''),
                        (''X-Accel-Buffering'', ''no'')]\<rparr>
   \<and> float_round (fl (fl (1 - fl (of_nat 3 / of_nat 14)) * 100)) 1 = fl (786 / 10)"
proof -
  note h = doubled_response
  note g = example_stream_response
  have b: "body \<lparr>body = [Chunk ''A fox'', Chunk '' jumps.'']
                     @ [Complete ''A fox jumps.'' 14 3 (fl (786 / 10))],
             media_type = ''text/event-stream'',
             headers = [(''Cache-Control'', ''no-cache''), (''Connection'', ''keep-alive''),
                        (''X-Accel-Buffering'', ''no'')]\<rparr>
           = [Chunk ''A fox'', Chunk '' jumps.''] @ [Complete ''A fox jumps.'' 14 3 (fl (786 / 10))]"
    by simp
  from compression_ratio_formula [of http_exception_str
         "replying_client (example_text @ example_text) []" example_request
         "\<lparr>summary = strip (example_text @ example_text), original_word_count = 14,
             summary_word_count = 28, compression_ratio = - 100\<rparr>"]
  have one: "float_round (fl (fl (1 - fl (of_nat 28 / of_nat 14)) * 100)) 1 = (- 100 :: rat)"
    using h by simp
  from compression_ratio_formula [of http_exception_str
         "replying_client [] example_upstream" example_request _
         "\<lparr>body = [Chunk ''A fox'', Chunk '' jumps.'']
                     @ [Complete ''A fox jumps.'' 14 3 (fl (786 / 10))],
             media_type = ''text/event-stream'',
             headers = [(''Cache-Control'', ''no-cache''), (''Connection'', ''keep-alive''),
                        (''X-Accel-Buffering'', ''no'')]\<rparr>"
         "[Chunk ''A fox'', Chunk '' jumps.'']" "''A fox jumps.''" 14 3 "fl (786 / 10)"]
  have two: "float_round (fl (fl (1 - fl (of_nat 3 / of_nat 14)) * 100)) 1 = fl (786 / 10)"
    using g b by simp
  from h one g two show ?thesis by simp
qed

subsection \<open>The arguments of the upstream call\<close>

text \<open>
  C9. Every upstream call of either handler has the temperature \<open>0.3\<close>, the float
  nearest to three tenths. Its \<open>max_tokens\<close> is 500 when the request has no \<open>max_length\<close>, and
  the value of \<open>max_length\<close> when the request has one that is not zero. A request whose text
  passes the validation makes exactly one upstream call.
\<close>

theorem upstream_call_arguments:
  "(\<forall>args \<in> set (snd (summarize_text hstr client request))
              \<union> set (snd (summarize_text_stream hstr client request)).
       temperature args = fl (3 / 10)
       \<and> (max_length request = None \<longrightarrow> max_tokens args = 500)
       \<and> (\<forall>n. max_length request = Some n \<and> n \<noteq> 0 \<longrightarrow> max_tokens args = n))
   \<and> (50 \<le> length (strip (text' request)) \<longrightarrow>
         length (snd (summarize_text hstr client request)) = 1
         \<and> length (snd (summarize_text_stream hstr client request)) = 1)"
proof -
  have "temperature args = fl (3 / 10)
       \<and> (max_length request = None \<longrightarrow> max_tokens args = 500)
       \<and> (\<forall>n. max_length request = Some n \<and> n \<noteq> 0 \<longrightarrow> max_tokens args = n)"
    if "args \<in> set (snd (summarize_text hstr client request))
              \<union> set (snd (summarize_text_stream hstr client request))" for args
    using that sync_call_args [of args hstr client request]
      stream_call_args [of args hstr client request]
    by (auto simp: max_tokens_of_def)
  moreover have "50 \<le> length (strip (text' request)) \<longrightarrow>
         length (snd (summarize_text hstr client request)) = 1
         \<and> length (snd (summarize_text_stream hstr client request)) = 1"
    using sync_calls [of request hstr client] stream_calls [of request hstr client] by simp
  ultimately show ?thesis by blast
qed

theorem upstream_call_arguments_witness:
  "50 \<le> length (strip (text' (example_request\<lparr>max_length := Some 120\<rparr>)))
   \<and> snd (summarize_text http_exception_str (replying_client ''A fox jumps.'' example_upstream)
            (example_request\<lparr>max_length := Some 120\<rparr>))
       = [\<lparr>model = ''palmyra-x-004'',
           messages = [(''user'', build_prompt example_text (Some ''concise''))],
           max_tokens = 120, temperature = fl (3 / 10), stream = False\<rparr>]
   \<and> snd (summarize_text_stream http_exception_str
            (replying_client ''A fox jumps.'' example_upstream)
            (example_request\<lparr>max_length := Some 120\<rparr>))
       = [\<lparr>model = ''palmyra-x-004'',
           messages = [(''user'', build_prompt example_text (Some ''concise''))],
           max_tokens = 120, temperature = fl (3 / 10), stream = True\<rparr>]"
proof -
  note v = example_valid_max_length [of "Some 120"]
  from upstream_call_arguments [of http_exception_str
         "replying_client ''A fox jumps.'' example_upstream"
         "example_request\<lparr>max_length := Some 120\<rparr>"]
    sync_calls [OF v, of http_exception_str "replying_client ''A fox jumps.'' example_upstream"]
    stream_calls [OF v, of http_exception_str "replying_client ''A fox jumps.'' example_upstream"]
    v
  show ?thesis by (simp add: max_tokens_of_def example_request_def)
qed

text \<open>
  A \<open>max_length\<close> of zero is the exception in C9: it is specified, and the upstream call
  is made with 500.
\<close>

theorem max_length_zero_sends_500:
  "max_length (example_request\<lparr>max_length := Some 0\<rparr>) = Some 0
   \<and> map max_tokens (snd (summarize_text http_exception_str
                              (replying_client ''A fox jumps.'' example_upstream)
                              (example_request\<lparr>max_length := Some 0\<rparr>))) = [500]
   \<and> map max_tokens (snd (summarize_text_stream http_exception_str
                              (replying_client ''A fox jumps.'' example_upstream)
                              (example_request\<lparr>max_length := Some 0\<rparr>))) = [500]"
  using sync_calls [OF example_valid_max_length [of "Some 0"], of http_exception_str
          "replying_client ''A fox jumps.'' example_upstream"]
    stream_calls [OF example_valid_max_length [of "Some 0"], of http_exception_str
          "replying_client ''A fox jumps.'' example_upstream"]
  by (simp add: max_tokens_of_def)

text \<open>
  C10. A request with \<open>max_length = 0\<close> is answered by both handlers exactly as the same
  request without \<open>max_length\<close>, and when its text passes the validation the upstream call is
  made with 500. Every other value, a negative one included, is passed on unchanged.
\<close>

theorem zero_max_length_is_default:
  "summarize_text hstr client (request\<lparr>max_length := Some 0\<rparr>)
     = summarize_text hstr client (request\<lparr>max_length := None\<rparr>)
   \<and> summarize_text_stream hstr client (request\<lparr>max_length := Some 0\<rparr>)
       = summarize_text_stream hstr client (request\<lparr>max_length := None\<rparr>)
   \<and> (50 \<le> length (strip (text' request)) \<longrightarrow>
        map max_tokens (snd (summarize_text hstr client (request\<lparr>max_length := Some 0\<rparr>)))
          = [500]
        \<and> map max_tokens (snd (summarize_text_stream hstr client
                                  (request\<lparr>max_length := Some 0\<rparr>))) = [500]
        \<and> (n \<noteq> 0 \<longrightarrow>
             map max_tokens (snd (summarize_text hstr client (request\<lparr>max_length := Some n\<rparr>)))
               = [n]
             \<and> map max_tokens (snd (summarize_text_stream hstr client
                                       (request\<lparr>max_length := Some n\<rparr>))) = [n]))"
proof -
  have a: "summarize_text hstr client (request\<lparr>max_length := Some 0\<rparr>)
             = summarize_text hstr client (request\<lparr>max_length := None\<rparr>)"
    by (simp add: summarize_text_def max_length_zero_try)
  have b: "summarize_text_stream hstr client (request\<lparr>max_length := Some 0\<rparr>)
             = summarize_text_stream hstr client (request\<lparr>max_length := None\<rparr>)"
    by (simp add: summarize_text_stream_def max_length_zero_stream_try)
  have c: "map max_tokens (snd (summarize_text hstr client (request\<lparr>max_length := Some m\<rparr>)))
             = [max_tokens_of (Some m)]
           \<and> map max_tokens (snd (summarize_text_stream hstr client
                                     (request\<lparr>max_length := Some m\<rparr>)))
             = [max_tokens_of (Some m)]"
    if "50 \<le> length (strip (text' request))" for m
    using that sync_calls [of "request\<lparr>max_length := Some m\<rparr>" hstr client]
      stream_calls [of "request\<lparr>max_length := Some m\<rparr>" hstr client]
    by simp
  from a b c [of 0] c [of n] show ?thesis by (simp add: max_tokens_of_def)
qed

theorem zero_max_length_is_default_witness:
  "50 \<le> length (strip (text' example_request))
   \<and> (- 5 :: int) \<noteq> 0
   \<and> map max_tokens (snd (summarize_text http_exception_str
                              (replying_client ''A fox jumps.'' example_upstream)
                              (example_request\<lparr>max_length := Some 0\<rparr>))) = [500]
   \<and> map max_tokens (snd (summarize_text_stream http_exception_str
                              (replying_client ''A fox jumps.'' example_upstream)
                              (example_request\<lparr>max_length := Some 0\<rparr>))) = [500]
   \<and> map max_tokens (snd (summarize_text http_exception_str
                              (replying_client ''A fox jumps.'' example_upstream)
                              (example_request\<lparr>max_length := Some (- 5)\<rparr>))) = [- 5]
   \<and> map max_tokens (snd (summarize_text_stream http_exception_str
                              (replying_client ''A fox jumps.'' example_upstream)
                              (example_request\<lparr>max_length := Some (- 5)\<rparr>))) = [- 5]"
  using zero_max_length_is_default [of http_exception_str
          "replying_client ''A fox jumps.'' example_upstream" example_request "- 5",
          THEN conjunct2, THEN conjunct2, THEN mp, OF example_valid]
    example_valid
  by simp

subsection \<open>Prompt building\<close>

text \<open>
  C7. Prompt building is total over the style selector. The styles \<open>bullet_points\<close> and
  \<open>detailed\<close> give prompts that differ from the concise one and from each other, whatever
  the texts are, and every other style, \<open>None\<close> included, gives the concise prompt.
\<close>

theorem build_prompt_styles:
  "build_prompt t (Some ''bullet_points'') \<noteq> build_prompt u (Some ''detailed'')
   \<and> build_prompt t (Some ''bullet_points'') \<noteq> build_prompt u (Some ''concise'')
   \<and> build_prompt t (Some ''detailed'') \<noteq> build_prompt u (Some ''concise'')
   \<and> (sty \<noteq> Some ''bullet_points'' \<and> sty \<noteq> Some ''detailed''
        \<longrightarrow> build_prompt t sty = build_prompt t (Some ''concise''))"
  by (simp add: build_prompt_def)

theorem build_prompt_styles_witness:
  "(None \<noteq> Some ''bullet_points'' \<and> None \<noteq> Some ''detailed'')
   \<and> build_prompt example_text None = build_prompt example_text (Some ''concise'')
   \<and> build_prompt example_text (Some ''bullet_points'')
       \<noteq> build_prompt example_text (Some ''detailed'')"
  using build_prompt_styles [of example_text example_text None] by simp

end
